theory Spec2Isabelle
  imports Main "HOL-Library.Word"
begin

section \<open>Remote range reads: \<open>pkg/remote/s3.go\<close>\<close>

subsection \<open>Formatting an \<open>int64\<close> with \<open>%d\<close>\<close>

text \<open>
  Go's \<open>int64\<close> is a 64-bit word read as two's complement. \<open>fmt.Sprintf("%d", x)\<close>
  prints the decimal digits of the magnitude, most significant first, without leading
  zeros, after a minus sign when the value is negative.
\<close>

type_synonym int64 = "64 word"

definition digit_char :: "nat \<Rightarrow> char" where
  "digit_char d = ''0123456789'' ! (d mod 10)"

fun dec_nat :: "nat \<Rightarrow> string" where
  "dec_nat n = (if n < 10 then [digit_char n] else dec_nat (n div 10) @ [digit_char (n mod 10)])"

declare dec_nat.simps [simp del]

definition fmt_d :: "int64 \<Rightarrow> string" where
  "fmt_d x = (if sint x < 0 then CHR ''-'' # dec_nat (nat (- sint x)) else dec_nat (nat (sint x)))"

subsection \<open>\<open>buildRange\<close>\<close>

text \<open>
  The result is a \<open>*string\<close>: \<open>nil\<close> is \<open>None\<close>, \<open>aws.String s\<close> is \<open>Some s\<close>.
  The three branches are tested in the order of the source.
\<close>

definition buildRange :: "int64 \<Rightarrow> int64 \<Rightarrow> string option" where
  "buildRange offsetStart offsetEnd =
     (if offsetStart \<noteq> 0 \<and> offsetEnd \<noteq> 0 then
        Some (''bytes='' @ fmt_d offsetStart @ ''-'' @ fmt_d offsetEnd)
      else if offsetStart \<noteq> 0 then
        Some (''bytes='' @ fmt_d offsetStart @ ''-'')
      else if offsetEnd \<noteq> 0 then
        Some (''bytes=-'' @ fmt_d offsetEnd)
      else None)"

subsection \<open>Errors\<close>

text \<open>
  Values of Go's \<open>error\<close> interface that the program distinguishes. \<open>AwsError code message\<close>
  is an \<open>awserr.Error\<close>; \<open>ErrDoesNotExist\<close> is the sentinel of package \<open>remote\<close>; the
  \<open>os_\<close> and \<open>syscall_\<close> values are those of the standard library; \<open>OtherError\<close> is any
  other error, carrying its text.
\<close>

datatype go_error =
    AwsError string string
  | ErrDoesNotExist
  | os_ErrInvalid
  | os_ErrPermission
  | os_ErrExist
  | os_ErrNotExist
  | syscall_EPERM
  | syscall_EACCES
  | OtherError string

text \<open>A call that may return a value, return an error, or panic.\<close>

datatype 'a outcome = Ok 'a | Err go_error | Panicked go_error

definition ErrCodeNoSuchBucket :: string where
  "ErrCodeNoSuchBucket = ''NoSuchBucket''"

definition ErrCodeNoSuchKey :: string where
  "ErrCodeNoSuchKey = ''NoSuchKey''"

text \<open>The argument is an \<open>error\<close> that may be \<open>nil\<close> (\<open>None\<close>).\<close>

fun s3IsNotFoundErr :: "go_error option \<Rightarrow> bool" where
  "s3IsNotFoundErr None = False"
| "s3IsNotFoundErr (Some (AwsError code msg)) =
     (code = ErrCodeNoSuchBucket \<or> code = ErrCodeNoSuchKey)"
| "s3IsNotFoundErr (Some _) = False"

subsection \<open>The downloader and its backend\<close>

text \<open>
  An S3 client is determined, for this program, by the region it was configured with
  (\<open>s3.New(sess, aws.NewConfig().WithRegion(region))\<close>).
\<close>

record s3client =
  client_region :: string

definition s3_New :: "string \<Rightarrow> s3client" where
  "s3_New region = \<lparr>client_region = region\<rparr>"

definition defaultRegion :: string where
  "defaultRegion = ''us-east-1''"

record s3ParsedUri =
  Bucket :: string
  Path :: string

record URL =
  url_Host :: string
  url_Path :: string

text \<open>
  The calls that leave the program: \<open>url.Parse\<close>, \<open>session.NewSession\<close> (its error, if
  any), \<open>s3manager.GetBucketRegionWithClient\<close>, and the two object requests with their
  bucket, key and range. \<open>HeadObject\<close> answers with \<open>ContentLength\<close>, a \<open>*int64\<close>.
  The body of an object is the string of its bytes.
\<close>

record s3_backend =
  url_Parse :: "string \<Rightarrow> go_error + URL"
  NewSession :: "go_error option"
  GetBucketRegionWithClient :: "s3client \<Rightarrow> string \<Rightarrow> go_error + string"
  GetObjectWithContext :: "s3client \<Rightarrow> string \<Rightarrow> string \<Rightarrow> string option \<Rightarrow> go_error + string"
  HeadObjectWithContext :: "s3client \<Rightarrow> string \<Rightarrow> string \<Rightarrow> go_error + int64 option"

text \<open>
  What a call does besides returning: taking and releasing \<open>d.lock\<close>, and the requests it
  sends, in the order in which they happen.
\<close>

datatype s3_event =
    EvLock
  | EvUnlock
  | EvNewSession
  | EvGetBucketRegion s3client string
  | EvGetObject s3client string string "string option"
  | EvHeadObject s3client string string

text \<open>
  \<open>S3Downloader\<close>: the mutex shows in the events; the state that persists between calls
  is \<open>serviceCache\<close>.
\<close>

record S3Downloader =
  serviceCache :: "string \<rightharpoonup> s3client"

definition NewS3Downloader :: S3Downloader where
  "NewS3Downloader = \<lparr>serviceCache = Map.empty\<rparr>"

text \<open>
  \<open>getServiceForBucket\<close> locks on entry and unlocks when it returns (the deferred call
  runs on every way out, a panic of \<open>session.Must\<close> included).
\<close>

definition getServiceForBucket ::
  "s3_backend \<Rightarrow> S3Downloader \<Rightarrow> string \<Rightarrow> s3client outcome \<times> S3Downloader \<times> s3_event list" where
  "getServiceForBucket be d bucket =
     (case serviceCache d bucket of
        Some svc \<Rightarrow> (Ok svc, d, [EvLock, EvUnlock])
      | None \<Rightarrow>
         (case NewSession be of
            Some e \<Rightarrow> (Panicked e, d, [EvLock, EvNewSession, EvUnlock])
          | None \<Rightarrow>
             (let svc = s3_New defaultRegion in
              case GetBucketRegionWithClient be svc bucket of
                Inl err \<Rightarrow>
                  (Err err, d, [EvLock, EvNewSession, EvGetBucketRegion svc bucket, EvUnlock])
              | Inr region \<Rightarrow>
                  (let svc' = s3_New region in
                   (Ok svc', d\<lparr>serviceCache := (serviceCache d)(bucket \<mapsto> svc')\<rparr>,
                    [EvLock, EvNewSession, EvGetBucketRegion svc bucket, EvUnlock])))))"

definition parseUri :: "s3_backend \<Rightarrow> string \<Rightarrow> go_error + s3ParsedUri" where
  "parseUri be uri =
     (case url_Parse be uri of
        Inl err \<Rightarrow> Inl err
      | Inr parsed \<Rightarrow> Inr \<lparr>Bucket = url_Host parsed, Path = url_Path parsed\<rparr>)"

definition Download ::
  "s3_backend \<Rightarrow> S3Downloader \<Rightarrow> string \<Rightarrow> int64 \<Rightarrow> int64
     \<Rightarrow> string outcome \<times> S3Downloader \<times> s3_event list" where
  "Download be d uri offsetStart offsetEnd =
     (case parseUri be uri of
        Inl err \<Rightarrow> (Err err, d, [])
      | Inr parsed \<Rightarrow>
         (case getServiceForBucket be d (Bucket parsed) of
            (Panicked e, d', tr) \<Rightarrow> (Panicked e, d', tr)
          | (Err err, d', tr) \<Rightarrow> (Err err, d', tr)
          | (Ok svc, d', tr) \<Rightarrow>
             (let rng = buildRange offsetStart offsetEnd;
                  tr' = tr @ [EvGetObject svc (Bucket parsed) (Path parsed) rng]
              in case GetObjectWithContext be svc (Bucket parsed) (Path parsed) rng of
                   Inl err \<Rightarrow>
                     if s3IsNotFoundErr (Some err) then (Err ErrDoesNotExist, d', tr')
                     else (Err err, d', tr')
                 | Inr body \<Rightarrow> (Ok body, d', tr'))))"

text \<open>\<open>aws.Int64Value\<close> reads a \<open>*int64\<close>, with 0 for \<open>nil\<close>.\<close>

definition Int64Value :: "int64 option \<Rightarrow> int64" where
  "Int64Value p = (case p of None \<Rightarrow> 0 | Some v \<Rightarrow> v)"

definition SizeOf ::
  "s3_backend \<Rightarrow> S3Downloader \<Rightarrow> string \<Rightarrow> int64 outcome \<times> S3Downloader \<times> s3_event list" where
  "SizeOf be d uri =
     (case parseUri be uri of
        Inl err \<Rightarrow> (Err err, d, [])
      | Inr parsed \<Rightarrow>
         (case getServiceForBucket be d (Bucket parsed) of
            (Panicked e, d', tr) \<Rightarrow> (Panicked e, d', tr)
          | (Err err, d', tr) \<Rightarrow> (Err err, d', tr)
          | (Ok svc, d', tr) \<Rightarrow>
             (let tr' = tr @ [EvHeadObject svc (Bucket parsed) (Path parsed)]
              in case HeadObjectWithContext be svc (Bucket parsed) (Path parsed) of
                   Inl err \<Rightarrow>
                     if s3IsNotFoundErr (Some err) then (Err ErrDoesNotExist, d', tr')
                     else (Err err, d', tr')
                 | Inr ContentLength \<Rightarrow> (Ok (Int64Value ContentLength), d', tr'))))"

subsection \<open>Threads that share the downloader's mutex\<close>




text \<open>
  A sequence of \<open>getServiceForBucket\<close> calls on one downloader, each with the backend as
  it answers at the time of the call.
\<close>

fun resolve_all :: "(s3_backend \<times> string) list \<Rightarrow> S3Downloader \<Rightarrow> S3Downloader" where
  "resolve_all [] d = d"
| "resolve_all ((be, bucket) # calls) d =
     resolve_all calls (fst (snd (getServiceForBucket be d bucket)))"

section \<open>The WebDAV adapter: package \<open>dav\<close>\<close>

text \<open>
  Modelled from the spec: the query contract of \<open>index.Tree\<close> (package \<open>index\<close> is not
  among the sources): \<open>Stat\<close> resolves a path to the entry's file information or fails,
  \<open>Open\<close> gives the content of a file entry or fails. The file information carries what
  the spec lists for an archive entry.
\<close>

record FileInfo =
  fi_path :: string
  fi_isDir :: bool
  fi_size :: int64
  fi_modTime :: int

record Tree =
  tree_Stat :: "string \<Rightarrow> go_error + FileInfo"
  tree_Open :: "string \<Rightarrow> go_error + string"

text \<open>The calls an adapter operation makes on the Tree, in order.\<close>

datatype tree_call = CallStat string | CallOpen string

record davFS =
  tree :: Tree

text \<open>The two fields that \<open>OpenFile\<close> sets in the \<open>treeFile\<close> it returns.\<close>

record treeFile =
  file_tree :: Tree
  fi :: FileInfo

definition NewDavFS :: "Tree \<Rightarrow> davFS" where
  "NewDavFS t = \<lparr>tree = t\<rparr>"

text \<open>
  Each operation returns its result, the receiver as it leaves it, and the calls it made
  on the Tree. \<open>flag\<close> is the \<open>int\<close> of \<open>os.O_RDONLY\<close> and its kin, \<open>perm\<close> an
  \<open>os.FileMode\<close> (a \<open>uint32\<close>).
\<close>

definition Mkdir :: "davFS \<Rightarrow> string \<Rightarrow> 32 word \<Rightarrow> go_error option \<times> davFS \<times> tree_call list" where
  "Mkdir fs name perm = (Some os_ErrInvalid, fs, [])"

definition OpenFile ::
  "davFS \<Rightarrow> string \<Rightarrow> int \<Rightarrow> 32 word \<Rightarrow> (go_error + treeFile) \<times> davFS \<times> tree_call list" where
  "OpenFile fs name flag perm =
     (case tree_Stat (tree fs) name of
        Inl err \<Rightarrow> (Inl err, fs, [CallStat name])
      | Inr f \<Rightarrow> (Inr \<lparr>file_tree = tree fs, fi = f\<rparr>, fs, [CallStat name]))"

definition RemoveAll :: "davFS \<Rightarrow> string \<Rightarrow> go_error option \<times> davFS \<times> tree_call list" where
  "RemoveAll fs name = (Some os_ErrInvalid, fs, [])"

definition Rename :: "davFS \<Rightarrow> string \<Rightarrow> string \<Rightarrow> go_error option \<times> davFS \<times> tree_call list" where
  "Rename fs oldName newName = (Some os_ErrInvalid, fs, [])"

definition Stat :: "davFS \<Rightarrow> string \<Rightarrow> (go_error + FileInfo) \<times> davFS \<times> tree_call list" where
  "Stat fs name = (tree_Stat (tree fs) name, fs, [CallStat name])"

text \<open>
  \<open>os.IsPermission\<close>: the errors that mean that the operation is not permitted
  (\<open>os.ErrPermission\<close>, "permission denied", and the errno values \<open>EPERM\<close>, "operation not
  permitted", and \<open>EACCES\<close>). \<open>os.ErrInvalid\<close> is "invalid argument".
\<close>

fun IsPermission :: "go_error \<Rightarrow> bool" where
  "IsPermission os_ErrPermission = True"
| "IsPermission syscall_EPERM = True"
| "IsPermission syscall_EACCES = True"
| "IsPermission err = False"

section \<open>The mount server: command \<open>mount-server\<close>\<close>

text \<open>
  The five flags are registered as strings in \<open>init\<close>, so the five \<open>GetString\<close> calls
  of \<open>Run\<close> return their values.
\<close>

record flags =
  flag_cache_dir :: string
  flag_listen :: string
  flag_callback_addr :: string
  flag_log :: string
  flag_protocol :: string

datatype mountServerStatus = mountServerStatusSuccess | mountServerStatusError

datatype adapter = NFS | WebDAV

text \<open>
  What the operating system, the network and the other packages answer. An error is
  represented by its text, which is all that \<open>Run\<close> uses of it (\<open>%v\<close>).
  \<open>status_text\<close> gives the string constants of \<open>mountServerStatus\<close>, declared outside
  these sources; \<open>fresh_cache_dir\<close> is the generated path below \<open>os.TempDir()\<close>;
  \<open>isDir\<close> is the helper of package \<open>cmd\<close>; the connections that \<open>sendCallback\<close>
  opens are numbered from 0 in the order of the calls; \<open>interrupted\<close> tells whether the
  context is ever cancelled; \<open>Serve\<close> gives the error with which an adapter's \<open>Serve\<close>
  returns, if it does.
\<close>

record run_env =
  status_text :: "mountServerStatus \<Rightarrow> string"
  os_OpenFile :: "string \<Rightarrow> string option"
  os_Getenv :: "string \<Rightarrow> string"
  fresh_cache_dir :: string
  isDir :: "string \<Rightarrow> string + bool"
  os_MkdirAll :: "string \<Rightarrow> string option"
  net_Listen :: "string \<Rightarrow> string + string"
  BuildZipTree :: "string \<Rightarrow> string \<Rightarrow> string \<Rightarrow> string \<Rightarrow> string \<Rightarrow> string + Tree"
  net_Dial :: "nat \<Rightarrow> string \<Rightarrow> string option"
  conn_Write :: "nat \<Rightarrow> string \<Rightarrow> string option"
  conn_Close :: "nat \<Rightarrow> string option"
  interrupted :: bool
  os_RemoveAll :: "string \<Rightarrow> string option"
  Serve :: "adapter \<Rightarrow> string option"

text \<open>
  The events of a run of the process, in order. Calls that may fail carry their error.
  \<open>EvSendCallback\<close> marks a call of \<open>sendCallback\<close> with its address, status and
  message; \<open>EvSpawn\<close> is the \<open>go\<close> statement that starts an adapter on the listener;
  \<open>EvExit\<close> is the end of the process through \<open>die\<close>, with the message it prints;
  \<open>EvBlocked\<close> is a wait for a cancellation that never comes.
\<close>

datatype run_event =
    EvOpenLog string "string option"
  | EvLogInfo string
  | EvIsDir string "string option"
  | EvMkdirAll string "string option"
  | EvListen string "string + string"
  | EvBuildZipTree string string "string option"
  | EvNotifyContext
  | EvSpawn adapter
  | EvSendCallback string mountServerStatus string
  | EvDial nat string "string option"
  | EvWrite nat string "string option"
  | EvClose nat "string option"
  | EvDone
  | EvBlocked
  | EvCancel
  | EvRemoveAll string "string option"
  | EvExit string
  | EvReturn

definition cacheDirEnvironmentVariableName :: string where
  "cacheDirEnvironmentVariableName = ''CLOUDZIP_CACHE_DIR''"

definition newline :: string where
  "newline = [CHR 0x0A]"

definition quote :: string where
  "quote = [CHR 0x27]"

text \<open>
  \<open>sendCallback\<close>, on connection number \<open>n\<close>: dial, write the one line, close. A failed
  dial or write returns at once.
\<close>

definition sendCallback ::
  "run_env \<Rightarrow> nat \<Rightarrow> string \<Rightarrow> mountServerStatus \<Rightarrow> string \<Rightarrow> string option \<times> run_event list" where
  "sendCallback env n toAddr className msg =
     (case net_Dial env n toAddr of
        Some err \<Rightarrow> (Some err, [EvSendCallback toAddr className msg, EvDial n toAddr (Some err)])
      | None \<Rightarrow>
         (let line = status_text env className @ ''='' @ msg @ newline in
          case conn_Write env n line of
            Some err \<Rightarrow>
              (Some err,
               [EvSendCallback toAddr className msg, EvDial n toAddr None, EvWrite n line (Some err)])
          | None \<Rightarrow>
              (conn_Close env n,
               [EvSendCallback toAddr className msg, EvDial n toAddr None, EvWrite n line None,
                EvClose n (conn_Close env n)])))"

text \<open>
  Modelled from the spec: \<open>die\<close>, a helper of package \<open>cmd\<close> outside these sources. A
  fatal error is reported and the process exits non-zero; nothing of \<open>Run\<close> runs after it,
  deferred calls included.
\<close>

definition die :: "string \<Rightarrow> run_event list" where
  "die msg = [EvExit msg]"

definition dieWithCallback :: "run_env \<Rightarrow> nat \<Rightarrow> string \<Rightarrow> string \<Rightarrow> run_event list" where
  "dieWithCallback env n toAddr errMessage =
     (case (if toAddr \<noteq> [] then sendCallback env n toAddr mountServerStatusError errMessage
            else (None, [])) of
        (None, evs) \<Rightarrow> evs @ die errMessage
      | (Some err, evs) \<Rightarrow>
          evs @ die (errMessage @ '' (could not notify callback address '' @ toAddr @ '': ''
                       @ err @ '')''))"

text \<open>
  \<open>serverLogging\<close>: standard output for an empty \<open>logFile\<close>, else the file, opened for
  appending; the level is debug when \<open>CLOUDZIP_LOGGING\<close> is \<open>DEBUG\<close>.
\<close>

datatype log_writer = Stdout | LogFile string

record logger =
  log_to :: log_writer
  log_debug :: bool

definition serverLogging :: "run_env \<Rightarrow> string \<Rightarrow> (string + logger) \<times> run_event list" where
  "serverLogging env logFile =
     (if logFile = [] then
        (Inr \<lparr>log_to = Stdout, log_debug = (os_Getenv env ''CLOUDZIP_LOGGING'' = ''DEBUG'')\<rparr>, [])
      else
        (case os_OpenFile env logFile of
           Some err \<Rightarrow> (Inl err, [EvOpenLog logFile (Some err)])
         | None \<Rightarrow>
             (Inr \<lparr>log_to = LogFile logFile,
                   log_debug = (os_Getenv env ''CLOUDZIP_LOGGING'' = ''DEBUG'')\<rparr>,
              [EvOpenLog logFile None])))"

text \<open>
  \<open>Run\<close>, in the stages of the source, last stage first. \<open>auto\<close> says that the cache
  directory was generated, so that its removal is deferred. The deferred calls run when
  \<open>Run\<close> returns, last registered first: \<open>cancelFn\<close>, then the removal.
\<close>

definition run_deferred :: "run_env \<Rightarrow> flags \<Rightarrow> bool \<Rightarrow> string \<Rightarrow> run_event list" where
  "run_deferred env fl auto cacheDir =
     EvCancel #
     (if auto then
        (case os_RemoveAll env cacheDir of
           Some err \<Rightarrow>
             EvRemoveAll cacheDir (Some err) #
             dieWithCallback env 1 (flag_callback_addr fl)
               (''could not clear cache dir at '' @ cacheDir @ '': '' @ err @ newline)
         | None \<Rightarrow> [EvRemoveAll cacheDir None, EvReturn])
      else [EvReturn])"

definition run_wait :: "run_env \<Rightarrow> flags \<Rightarrow> bool \<Rightarrow> string \<Rightarrow> run_event list" where
  "run_wait env fl auto cacheDir =
     EvLogInfo ''mount server started successfully'' #
     (if interrupted env then EvDone # run_deferred env fl auto cacheDir else [EvBlocked])"

definition run_report :: "run_env \<Rightarrow> flags \<Rightarrow> bool \<Rightarrow> string \<Rightarrow> string \<Rightarrow> run_event list" where
  "run_report env fl auto cacheDir boundAddr =
     (if flag_callback_addr fl \<noteq> [] then
        (case sendCallback env 0 (flag_callback_addr fl) mountServerStatusSuccess boundAddr of
           (Some err, evs) \<Rightarrow>
             evs @ die (''could not send listen address back to caller: '' @ err @ newline)
         | (None, evs) \<Rightarrow> evs @ run_wait env fl auto cacheDir)
      else run_wait env fl auto cacheDir)"

definition run_serve :: "run_env \<Rightarrow> flags \<Rightarrow> bool \<Rightarrow> string \<Rightarrow> string \<Rightarrow> run_event list" where
  "run_serve env fl auto cacheDir boundAddr =
     EvNotifyContext #
     (if flag_protocol fl = ''nfs'' then EvSpawn NFS # run_report env fl auto cacheDir boundAddr
      else if flag_protocol fl = ''webdav'' then
        EvSpawn WebDAV # run_report env fl auto cacheDir boundAddr
      else
        dieWithCallback env 0 (flag_callback_addr fl)
          (''unknown protocol: '' @ quote @ flag_protocol fl @ quote @ ''. Supported types are ''
             @ quote @ ''nfs'' @ quote @ '' and '' @ quote @ ''webdav'' @ quote))"

definition run_build ::
  "run_env \<Rightarrow> flags \<Rightarrow> string \<Rightarrow> bool \<Rightarrow> string \<Rightarrow> string \<Rightarrow> run_event list" where
  "run_build env fl remoteFile auto cacheDir boundAddr =
     (case BuildZipTree env cacheDir remoteFile boundAddr (flag_protocol fl) (flag_log fl) of
        Inl err \<Rightarrow>
          EvBuildZipTree cacheDir remoteFile (Some err) #
          dieWithCallback env 0 (flag_callback_addr fl)
            (''could not create filesystem: '' @ err @ newline)
      | Inr t \<Rightarrow>
          EvBuildZipTree cacheDir remoteFile None # run_serve env fl auto cacheDir boundAddr)"

definition run_listen :: "run_env \<Rightarrow> flags \<Rightarrow> string \<Rightarrow> bool \<Rightarrow> string \<Rightarrow> run_event list" where
  "run_listen env fl remoteFile auto cacheDir =
     (case net_Listen env (flag_listen fl) of
        Inl err \<Rightarrow>
          EvListen (flag_listen fl) (Inl err) #
          dieWithCallback env 0 (flag_callback_addr fl)
            (''could not listen on '' @ flag_listen fl @ '': '' @ err @ newline)
      | Inr boundAddr \<Rightarrow>
          EvListen (flag_listen fl) (Inr boundAddr) #
          run_build env fl remoteFile auto cacheDir boundAddr)"

definition run_cache :: "run_env \<Rightarrow> flags \<Rightarrow> string \<Rightarrow> run_event list" where
  "run_cache env fl remoteFile =
     (let cacheDir = (if flag_cache_dir fl = [] then os_Getenv env cacheDirEnvironmentVariableName
                      else flag_cache_dir fl);
          auto = (cacheDir = []);
          cacheDir = (if auto then fresh_cache_dir env else cacheDir)
      in case isDir env cacheDir of
           Inl err \<Rightarrow>
             EvIsDir cacheDir (Some err) #
             dieWithCallback env 0 (flag_callback_addr fl)
               (''could not check if cache directory '' @ quote @ cacheDir @ quote @ '' exists: ''
                  @ err @ newline)
         | Inr dirExists \<Rightarrow>
             EvIsDir cacheDir None #
             (if \<not> dirExists then
                (case os_MkdirAll env cacheDir of
                   Some err \<Rightarrow>
                     EvMkdirAll cacheDir (Some err) #
                     dieWithCallback env 0 (flag_callback_addr fl)
                       (''could not create local cache directory: '' @ err @ newline)
                 | None \<Rightarrow> EvMkdirAll cacheDir None # run_listen env fl remoteFile auto cacheDir)
              else run_listen env fl remoteFile auto cacheDir))"

definition Run :: "run_env \<Rightarrow> flags \<Rightarrow> string \<Rightarrow> run_event list" where
  "Run env fl remoteFile =
     (case serverLogging env (flag_log fl) of
        (Inl err, evs) \<Rightarrow>
          evs @ dieWithCallback env 0 (flag_callback_addr fl)
                  (''could not open log file '' @ flag_log fl @ '': '' @ err @ newline)
      | (Inr lg, evs) \<Rightarrow> evs @ EvLogInfo ''starting mount server'' # run_cache env fl remoteFile)"

text \<open>
  The function that \<open>Run\<close> starts in the background for an adapter: when \<open>Serve\<close>
  returns an error, it ends the process through \<open>dieWithCallback\<close>, on connection \<open>n\<close>.
\<close>

definition adapterTask :: "run_env \<Rightarrow> nat \<Rightarrow> flags \<Rightarrow> adapter \<Rightarrow> string \<Rightarrow> run_event list" where
  "adapterTask env n fl a boundAddr =
     (case Serve env a of
        None \<Rightarrow> []
      | Some err \<Rightarrow>
          dieWithCallback env n (flag_callback_addr fl)
            ((case a of NFS \<Rightarrow> ''could not serve NFS server on listener: ''
                      | WebDAV \<Rightarrow> ''could not serve WebDav server on listener: '')
               @ boundAddr @ '': '' @ err @ newline))"

subsection \<open>Reading a trace\<close>

text \<open>
  The calls of \<open>sendCallback\<close> in a trace; the lines that were written to the callback
  address; the adapters that were started.
\<close>

fun sends :: "run_event list \<Rightarrow> (string \<times> mountServerStatus \<times> string) list" where
  "sends [] = []"
| "sends (EvSendCallback toAddr className msg # evs) = (toAddr, className, msg) # sends evs"
| "sends (ev # evs) = sends evs"

fun written :: "run_event list \<Rightarrow> string list" where
  "written [] = []"
| "written (EvWrite n line None # evs) = line # written evs"
| "written (ev # evs) = written evs"

fun spawned :: "run_event list \<Rightarrow> adapter list" where
  "spawned [] = []"
| "spawned (EvSpawn a # evs) = a # spawned evs"
| "spawned (ev # evs) = spawned evs"

section \<open>Auxiliary notions and examples\<close>

text \<open>Reading a decimal numeral back, to check \<open>dec_nat\<close> against.\<close>

definition digit_value :: "char \<Rightarrow> nat" where
  "digit_value c = of_char c - 48"

definition dec_value :: "string \<Rightarrow> nat" where
  "dec_value s = foldl (\<lambda>a c. 10 * a + digit_value c) 0 s"


text \<open>
  Every client in the cache was made from a region that a lookup of one of the calls
  returned for its bucket.
\<close>

definition resolved_entries :: "(s3_backend \<times> string) list \<Rightarrow> S3Downloader \<Rightarrow> bool" where
  "resolved_entries calls d \<longleftrightarrow>
     (\<forall>bucket svc. serviceCache d bucket = Some svc \<longrightarrow>
        (\<exists>(be::s3_backend) region. (be, bucket) \<in> set calls
           \<and> GetBucketRegionWithClient be (s3_New defaultRegion) bucket = Inr region
           \<and> svc = s3_New region))"

text \<open>A backend on which everything succeeds, and one whose bucket does not exist.\<close>

definition example_backend :: s3_backend where
  "example_backend =
     \<lparr>url_Parse = (\<lambda>uri. if uri = ''s3://archives/big.zip''
                          then Inr \<lparr>url_Host = ''archives'', url_Path = ''/big.zip''\<rparr>
                          else Inl (OtherError ''parse'')),
      NewSession = None,
      GetBucketRegionWithClient = (\<lambda>svc bucket. Inr ''eu-west-1''),
      GetObjectWithContext = (\<lambda>svc bucket key rng. Inr ''PK''),
      HeadObjectWithContext = (\<lambda>svc bucket key. Inr (Some 500))\<rparr>"

definition missing_bucket_backend :: s3_backend where
  "missing_bucket_backend =
     \<lparr>url_Parse = (\<lambda>uri. if uri = ''s3://missing/big.zip''
                          then Inr \<lparr>url_Host = ''missing'', url_Path = ''/big.zip''\<rparr>
                          else Inl (OtherError ''parse'')),
      NewSession = None,
      GetBucketRegionWithClient =
        (\<lambda>svc bucket. Inl (AwsError ErrCodeNoSuchBucket ''The specified bucket does not exist'')),
      GetObjectWithContext =
        (\<lambda>svc bucket key rng.
           Inl (AwsError ErrCodeNoSuchBucket ''The specified bucket does not exist'')),
      HeadObjectWithContext =
        (\<lambda>svc bucket key.
           Inl (AwsError ErrCodeNoSuchBucket ''The specified bucket does not exist''))\<rparr>"

text \<open>
  A Tree with the file \<open>/a/b.txt\<close> of 12 bytes, on which no \<open>Open\<close> succeeds, and the
  adapter for it.
\<close>

definition example_entry :: FileInfo where
  "example_entry = \<lparr>fi_path = ''/a/b.txt'', fi_isDir = False, fi_size = 12, fi_modTime = 1700000000\<rparr>"

definition example_tree :: Tree where
  "example_tree =
     \<lparr>tree_Stat = (\<lambda>name. if name = ''/a/b.txt'' then Inr example_entry else Inl os_ErrNotExist),
      tree_Open = (\<lambda>name. Inl os_ErrNotExist)\<rparr>"

definition example_fs :: davFS where
  "example_fs = NewDavFS example_tree"

text \<open>
  Scanning a run: \<open>preceded P Q seen evs\<close> says that every event of \<open>evs\<close> with
  \<open>Q\<close> comes after an event with \<open>P\<close> (or that \<open>seen\<close> holds before \<open>evs\<close>);
  \<open>after_failed_build\<close> gives the error of the first failed tree build and the events
  that follow it; \<open>stopped\<close> says that a run ends with the exit of the process through
  \<open>die\<close>; \<open>listens\<close> gives the calls of \<open>net.Listen\<close>.
\<close>

fun is_bind :: "run_event \<Rightarrow> bool" where
  "is_bind (EvListen listenAddr (Inr boundAddr)) = True"
| "is_bind ev = False"

fun is_build :: "run_event \<Rightarrow> bool" where
  "is_build (EvBuildZipTree cacheDir remoteFile res) = True"
| "is_build ev = False"

fun is_built :: "run_event \<Rightarrow> bool" where
  "is_built (EvBuildZipTree cacheDir remoteFile None) = True"
| "is_built ev = False"

fun is_spawn :: "run_event \<Rightarrow> bool" where
  "is_spawn (EvSpawn a) = True"
| "is_spawn ev = False"

fun preceded :: "(run_event \<Rightarrow> bool) \<Rightarrow> (run_event \<Rightarrow> bool) \<Rightarrow> bool \<Rightarrow> run_event list \<Rightarrow> bool" where
  "preceded P Q seen [] = True"
| "preceded P Q seen (ev # evs) = ((Q ev \<longrightarrow> seen) \<and> preceded P Q (seen \<or> P ev) evs)"

fun listens :: "run_event list \<Rightarrow> (string \<times> (string + string)) list" where
  "listens [] = []"
| "listens (EvListen listenAddr res # evs) = (listenAddr, res) # listens evs"
| "listens (ev # evs) = listens evs"

fun after_failed_build :: "run_event list \<Rightarrow> (string \<times> run_event list) option" where
  "after_failed_build [] = None"
| "after_failed_build (EvBuildZipTree cacheDir remoteFile (Some err) # evs) = Some (err, evs)"
| "after_failed_build (ev # evs) = after_failed_build evs"

fun stopped :: "run_event list \<Rightarrow> bool" where
  "stopped [] = False"
| "stopped [EvExit msg] = True"
| "stopped [ev] = False"
| "stopped (ev # evs) = stopped evs"

text \<open>
  The events of serving and of shutdown: an adapter is started, the success is logged,
  the process waits for the cancellation, or what follows it.
\<close>

fun serving_event :: "run_event \<Rightarrow> bool" where
  "serving_event (EvSpawn a) = True"
| "serving_event (EvLogInfo msg) = (msg = ''mount server started successfully'')"
| "serving_event EvDone = True"
| "serving_event EvBlocked = True"
| "serving_event EvCancel = True"
| "serving_event (EvRemoveAll cacheDir res) = True"
| "serving_event EvReturn = True"
| "serving_event ev = False"

text \<open>The message for a protocol that is neither \<open>nfs\<close> nor \<open>webdav\<close>.\<close>

definition unknown_protocol_message :: "string \<Rightarrow> string" where
  "unknown_protocol_message protocol =
     ''unknown protocol: '' @ quote @ protocol @ quote @ ''. Supported types are ''
       @ quote @ ''nfs'' @ quote @ '' and '' @ quote @ ''webdav'' @ quote"

text \<open>
  An environment in which everything succeeds until the shutdown, where the removal of
  the generated cache directory fails; the same with a tree build that fails; and flags
  with a callback address, for \<open>nfs\<close> and for a protocol that does not exist.
\<close>

definition example_env :: run_env where
  "example_env =
     \<lparr>status_text = (\<lambda>s. case s of mountServerStatusSuccess \<Rightarrow> ''SUCCESS''
                                   | mountServerStatusError \<Rightarrow> ''ERROR''),
      os_OpenFile = (\<lambda>f. None),
      os_Getenv = (\<lambda>v. []),
      fresh_cache_dir = ''/tmp/cz-mount-cache/u1'',
      isDir = (\<lambda>p. Inr False),
      os_MkdirAll = (\<lambda>p. None),
      net_Listen = (\<lambda>a. Inr ''127.0.0.1:4000''),
      BuildZipTree = (\<lambda>cacheDir remoteFile boundAddr protocol logFile. Inr example_tree),
      net_Dial = (\<lambda>n a. None),
      conn_Write = (\<lambda>n l. None),
      conn_Close = (\<lambda>n. None),
      interrupted = True,
      os_RemoveAll = (\<lambda>p. Some ''busy''),
      Serve = (\<lambda>a. None)\<rparr>"

definition failing_build_env :: run_env where
  "failing_build_env =
     example_env\<lparr>BuildZipTree := (\<lambda>cacheDir remoteFile boundAddr protocol logFile. Inl ''no such key'')\<rparr>"

definition example_flags :: flags where
  "example_flags =
     \<lparr>flag_cache_dir = [], flag_listen = ''127.0.0.1:0'', flag_callback_addr = ''127.0.0.1:9000'',
      flag_log = [], flag_protocol = ''nfs''\<rparr>"

definition ftp_flags :: flags where
  "ftp_flags = example_flags\<lparr>flag_protocol := ''ftp''\<rparr>"

text \<open>
  The cache directory that \<open>Run\<close> settles on: the flag, else the environment variable,
  else the generated path. \<open>reaches_listen\<close> says that the startup gets as far as binding
  the listener: the log opens, and the cache directory exists or is created.
\<close>

definition chosen_cache_dir :: "run_env \<Rightarrow> flags \<Rightarrow> string" where
  "chosen_cache_dir env fl =
     (let cacheDir = (if flag_cache_dir fl = [] then os_Getenv env cacheDirEnvironmentVariableName
                      else flag_cache_dir fl)
      in if cacheDir = [] then fresh_cache_dir env else cacheDir)"

definition cache_dir_generated :: "run_env \<Rightarrow> flags \<Rightarrow> bool" where
  "cache_dir_generated env fl \<longleftrightarrow>
     (if flag_cache_dir fl = [] then os_Getenv env cacheDirEnvironmentVariableName
      else flag_cache_dir fl) = []"

definition reaches_listen :: "run_env \<Rightarrow> flags \<Rightarrow> bool" where
  "reaches_listen env fl \<longleftrightarrow>
     (flag_log fl = [] \<or> os_OpenFile env (flag_log fl) = None)
     \<and> (isDir env (chosen_cache_dir env fl) = Inr True
        \<or> isDir env (chosen_cache_dir env fl) = Inr False
           \<and> os_MkdirAll env (chosen_cache_dir env fl) = None)"

text \<open>The events of a run up to the point where the listener is bound.\<close>

definition startup_events :: "run_env \<Rightarrow> flags \<Rightarrow> run_event list" where
  "startup_events env fl =
     (if flag_log fl = [] then [] else [EvOpenLog (flag_log fl) None]) @
     [EvLogInfo ''starting mount server'', EvIsDir (chosen_cache_dir env fl) None] @
     (if isDir env (chosen_cache_dir env fl) = Inr True then []
      else [EvMkdirAll (chosen_cache_dir env fl) None])"

text \<open>The message with which the process exits, if it does.\<close>

fun exit_message :: "run_event list \<Rightarrow> string option" where
  "exit_message [] = None"
| "exit_message (EvExit msg # evs) = Some msg"
| "exit_message (ev # evs) = exit_message evs"

text \<open>An environment in which nobody listens on the callback address.\<close>

definition unreachable_callback_env :: run_env where
  "unreachable_callback_env = example_env\<lparr>net_Dial := (\<lambda>n a. Some ''connection refused'')\<rparr>"

text \<open>The events that come before the listener is bound.\<close>

fun is_early :: "run_event \<Rightarrow> bool" where
  "is_early (EvOpenLog logFile res) = True"
| "is_early (EvLogInfo msg) = (msg = ''starting mount server'')"
| "is_early (EvIsDir cacheDir res) = True"
| "is_early (EvMkdirAll cacheDir res) = True"
| "is_early ev = False"

section \<open>Range expressions\<close>

lemma small_nat_cases: "k < 10 \<Longrightarrow> k \<in> {0, 1, 2, 3, 4, 5, 6, 7, 8, 9}" for k :: nat
  by auto

lemma dec_nat_not_Nil: "dec_nat n \<noteq> []"
  by (subst dec_nat.simps) simp

lemma digit_char_zero: "d < 10 \<Longrightarrow> digit_char d = CHR ''0'' \<longleftrightarrow> d = 0"
proof -
  assume "d < 10"
  then have "d \<in> {0, 1, 2, 3, 4, 5, 6, 7, 8, 9}" by (rule small_nat_cases)
  then show ?thesis by (auto simp: digit_char_def)
qed

lemma digit_value_digit_char: "d < 10 \<Longrightarrow> digit_value (digit_char d) = d"
proof -
  assume "d < 10"
  then have "d \<in> {0, 1, 2, 3, 4, 5, 6, 7, 8, 9}" by (rule small_nat_cases)
  then show ?thesis by (auto simp: digit_char_def digit_value_def)
qed

text \<open>\<open>dec_nat\<close> writes the number: reading the digits back gives it again.\<close>

lemma dec_value_dec_nat: "dec_value (dec_nat n) = n"
proof (induction n rule: dec_nat.induct)
  case (1 n)
  show ?case
  proof (cases "n < 10")
    case True
    then show ?thesis
      by (subst dec_nat.simps) (simp add: dec_value_def digit_value_digit_char)
  next
    case False
    with 1 have "dec_value (dec_nat (n div 10)) = n div 10" by simp
    with False show ?thesis
      by (subst dec_nat.simps) (simp add: dec_value_def digit_value_digit_char)
  qed
qed

text \<open>No leading zero: only the numeral of 0 starts with the digit 0.\<close>

lemma hd_dec_nat_zero: "hd (dec_nat n) = CHR ''0'' \<longleftrightarrow> n = 0"
proof (induction n rule: dec_nat.induct)
  case (1 n)
  show ?case
  proof (cases "n < 10")
    case True
    then show ?thesis
      by (subst dec_nat.simps) (simp add: digit_char_zero)
  next
    case False
    then have "n div 10 \<noteq> 0" by simp
    with 1 False show ?thesis
      by (subst dec_nat.simps) (simp add: dec_nat_not_Nil)
  qed
qed

lemma fmt_d_not_Nil: "fmt_d x \<noteq> []"
  by (simp add: fmt_d_def dec_nat_not_Nil)

lemma hd_fmt_d_zero: "hd (fmt_d x) = CHR ''0'' \<longleftrightarrow> x = 0"
  by (auto simp: fmt_d_def hd_dec_nat_zero signed_eq_0_iff)

lemma fmt_d_positive: "0 < sint x \<Longrightarrow> fmt_d x = dec_nat (nat (sint x))"
  by (simp add: fmt_d_def)

lemma no_prefix_range: "buildRange s e \<noteq> Some (''bytes=0-'' @ rest)"
proof -
  have a: "s \<noteq> 0 \<Longrightarrow> fmt_d s @ xs \<noteq> CHR ''0'' # ys" for xs ys
  proof
    assume "s \<noteq> 0" and eq: "fmt_d s @ xs = CHR ''0'' # ys"
    from eq have "hd (fmt_d s @ xs) = CHR ''0''" by simp
    then have "hd (fmt_d s) = CHR ''0''" by (simp add: fmt_d_not_Nil)
    with \<open>s \<noteq> 0\<close> show False by (simp add: hd_fmt_d_zero)
  qed
  show ?thesis
    by (auto simp: buildRange_def a)
qed

lemma Download_request:
  assumes "parseUri be uri = Inr parsed"
    and "getServiceForBucket be d (Bucket parsed) = (Ok svc, d', tr)"
  shows "snd (snd (Download be d uri offsetStart offsetEnd)) =
           tr @ [EvGetObject svc (Bucket parsed) (Path parsed) (buildRange offsetStart offsetEnd)]"
  using assms by (simp add: Download_def Let_def split: sum.splits)

text \<open>
  C1. For every pair of offsets, \<open>buildRange\<close> gives one of four forms, chosen by which
  offsets are zero: no range expression for (0, 0); \<open>bytes=start-\<close> when only the start
  is not zero; \<open>bytes=start-end\<close> when neither is zero; \<open>bytes=-end\<close> when only the end
  is not zero. It gives no range expression only for (0, 0). The offsets are written in
  decimal, as \<open>%d\<close> writes an \<open>int64\<close>.
\<close>

theorem buildRange_forms:
  "(offsetStart = 0 \<and> offsetEnd = 0 \<longrightarrow> buildRange offsetStart offsetEnd = None) \<and>
   (offsetStart \<noteq> 0 \<and> offsetEnd = 0 \<longrightarrow>
      buildRange offsetStart offsetEnd = Some (''bytes='' @ fmt_d offsetStart @ ''-'')) \<and>
   (offsetStart \<noteq> 0 \<and> offsetEnd \<noteq> 0 \<longrightarrow>
      buildRange offsetStart offsetEnd =
        Some (''bytes='' @ fmt_d offsetStart @ ''-'' @ fmt_d offsetEnd)) \<and>
   (offsetStart = 0 \<and> offsetEnd \<noteq> 0 \<longrightarrow>
      buildRange offsetStart offsetEnd = Some (''bytes=-'' @ fmt_d offsetEnd)) \<and>
   (buildRange offsetStart offsetEnd = None \<longleftrightarrow> offsetStart = 0 \<and> offsetEnd = 0)"
  by (simp add: buildRange_def)

theorem buildRange_forms_witness:
  "buildRange 0 0 = None \<and> buildRange 100 0 = Some ''bytes=100-'' \<and>
   buildRange 100 499 = Some ''bytes=100-499'' \<and> buildRange 0 500 = Some ''bytes=-500''"
  using buildRange_forms [of 0 0] buildRange_forms [of 100 0] buildRange_forms [of 100 499]
    buildRange_forms [of 0 500]
  by (simp add: fmt_d_def dec_nat.simps digit_char_def)

text \<open>
  C9. With \<open>offsetStart = 0\<close> and \<open>offsetEnd = N > 0\<close> the range expression is the suffix
  form \<open>bytes=-N\<close>, and this is the range of the \<open>GetObject\<close> request that \<open>Download\<close>
  sends. No pair of offsets gives an expression that starts with \<open>bytes=0-\<close>, so the
  range from byte 0 to byte \<open>N\<close> cannot be asked for.
\<close>

theorem zero_start_is_suffix:
  assumes "0 < sint N"
  shows "buildRange 0 N = Some (''bytes=-'' @ dec_nat (nat (sint N)))
       \<and> (\<forall>s e rest. buildRange s e \<noteq> Some (''bytes=0-'' @ rest))
       \<and> (parseUri be uri = Inr parsed
            \<and> getServiceForBucket be d (Bucket parsed) = (Ok svc, d', tr) \<longrightarrow>
          snd (snd (Download be d uri 0 N)) =
            tr @ [EvGetObject svc (Bucket parsed) (Path parsed)
                    (Some (''bytes=-'' @ dec_nat (nat (sint N))))])"
proof -
  from assms have nz: "N \<noteq> 0" by auto
  with assms have r: "buildRange 0 N = Some (''bytes=-'' @ dec_nat (nat (sint N)))"
    by (simp add: buildRange_def fmt_d_positive)
  have q: "\<forall>s e rest. buildRange s e \<noteq> Some (''bytes=0-'' @ rest)"
    using no_prefix_range by blast
  have t: "parseUri be uri = Inr parsed
            \<and> getServiceForBucket be d (Bucket parsed) = (Ok svc, d', tr) \<longrightarrow>
          snd (snd (Download be d uri 0 N)) =
            tr @ [EvGetObject svc (Bucket parsed) (Path parsed)
                    (Some (''bytes=-'' @ dec_nat (nat (sint N))))]"
    using Download_request [of be uri parsed d svc d' tr 0 N] r by auto
  from r q t show ?thesis by blast
qed

theorem zero_start_is_suffix_witness:
  "0 < sint (500 :: int64)
   \<and> buildRange 0 500 = Some ''bytes=-500''
   \<and> snd (snd (Download example_backend NewS3Downloader ''s3://archives/big.zip'' 0 500)) =
       [EvLock, EvNewSession, EvGetBucketRegion (s3_New defaultRegion) ''archives'', EvUnlock,
        EvGetObject (s3_New ''eu-west-1'') ''archives'' ''/big.zip'' (Some ''bytes=-500'')]"
proof -
  have h: "0 < sint (500 :: int64)" by simp
  have p: "parseUri example_backend ''s3://archives/big.zip''
             = Inr \<lparr>Bucket = ''archives'', Path = ''/big.zip''\<rparr>"
    by (simp add: parseUri_def example_backend_def)
  have g: "getServiceForBucket example_backend NewS3Downloader
             (Bucket \<lparr>Bucket = ''archives'', Path = ''/big.zip''\<rparr>)
           = (Ok (s3_New ''eu-west-1''),
              NewS3Downloader\<lparr>serviceCache :=
                 (serviceCache NewS3Downloader)(''archives'' \<mapsto> s3_New ''eu-west-1'')\<rparr>,
              [EvLock, EvNewSession, EvGetBucketRegion (s3_New defaultRegion) ''archives'', EvUnlock])"
    by (simp add: getServiceForBucket_def example_backend_def NewS3Downloader_def Let_def)
  have n: "dec_nat (nat (sint (500 :: int64))) = ''500''"
    by (simp add: dec_nat.simps digit_char_def)
  from zero_start_is_suffix [OF h, of example_backend "''s3://archives/big.zip''"
      "\<lparr>Bucket = ''archives'', Path = ''/big.zip''\<rparr>" NewS3Downloader "s3_New ''eu-west-1''"] p g h n
  show ?thesis by simp
qed

section \<open>Route resolution and the route cache\<close>

lemma route_failure:
  assumes "getServiceForBucket be d bucket = (Err err, d', tr)"
  shows "d' = d" and "serviceCache d bucket = None"
    and "GetBucketRegionWithClient be (s3_New defaultRegion) bucket = Inl err"
  using assms
  by (auto simp: getServiceForBucket_def Let_def split: option.splits sum.splits)

lemma retry_after_miss:
  assumes "serviceCache d bucket = None" and "NewSession be = None"
  shows "EvGetBucketRegion (s3_New defaultRegion) bucket
           \<in> set (snd (snd (getServiceForBucket be d bucket)))"
  using assms
  by (auto simp: getServiceForBucket_def Let_def split: option.splits sum.splits)

text \<open>One call keeps the invariant of the cache, with itself added to the calls made.\<close>

lemma resolved_entries_step:
  assumes "resolved_entries calls d"
  shows "resolved_entries (calls @ [(be, bucket)]) (fst (snd (getServiceForBucket be d bucket)))"
proof (cases "serviceCache d bucket = None \<and> NewSession be = None
                \<and> (\<exists>region. GetBucketRegionWithClient be (s3_New defaultRegion) bucket = Inr region)")
  case False
  then have "fst (snd (getServiceForBucket be d bucket)) = d"
    by (auto simp: getServiceForBucket_def Let_def split: option.splits sum.splits)
  with assms show ?thesis
    unfolding resolved_entries_def by fastforce
next
  case True
  then obtain region where r: "GetBucketRegionWithClient be (s3_New defaultRegion) bucket = Inr region"
    by blast
  with True have step: "fst (snd (getServiceForBucket be d bucket))
                    = d\<lparr>serviceCache := (serviceCache d)(bucket \<mapsto> s3_New region)\<rparr>"
    by (simp add: getServiceForBucket_def Let_def)
  show ?thesis
    unfolding resolved_entries_def step
  proof (intro allI impI)
    fix b svc
    assume look: "serviceCache (d\<lparr>serviceCache := (serviceCache d)(bucket \<mapsto> s3_New region)\<rparr>) b
                    = Some svc"
    show "\<exists>(be'::s3_backend) region'. (be', b) \<in> set (calls @ [(be, bucket)])
            \<and> GetBucketRegionWithClient be' (s3_New defaultRegion) b = Inr region'
            \<and> svc = s3_New region'"
    proof (cases "b = bucket")
      case True
      with look have "svc = s3_New region" by simp
      with r True show ?thesis by auto
    next
      case False
      with look have "serviceCache d b = Some svc" by simp
      with assms obtain be' :: s3_backend and region' where
        "(be', b) \<in> set calls"
        "GetBucketRegionWithClient be' (s3_New defaultRegion) b = Inr region'"
        "svc = s3_New region'"
        unfolding resolved_entries_def by blast
      then show ?thesis by auto
    qed
  qed
qed

lemma resolved_entries_all:
  "resolved_entries before d \<Longrightarrow> resolved_entries (before @ calls) (resolve_all calls d)"
proof (induction calls arbitrary: d before)
  case Nil
  then show ?case by simp
next
  case (Cons c calls)
  obtain be bucket where c: "c = (be, bucket)" by (cases c)
  from Cons.prems
  have "resolved_entries (before @ [(be, bucket)]) (fst (snd (getServiceForBucket be d bucket)))"
    by (rule resolved_entries_step)
  from Cons.IH [OF this] show ?case by (simp add: c)
qed

lemma resolved_entries_fresh: "resolved_entries [] NewS3Downloader"
  by (simp add: resolved_entries_def NewS3Downloader_def)

lemma route_failure_returned:
  assumes "serviceCache d bucket = None" and "NewSession be = None"
    and "GetBucketRegionWithClient be (s3_New defaultRegion) bucket = Inl err"
  shows "getServiceForBucket be d bucket =
           (Err err, d,
            [EvLock, EvNewSession, EvGetBucketRegion (s3_New defaultRegion) bucket, EvUnlock])"
  using assms by (simp add: getServiceForBucket_def Let_def)

text \<open>
  C10. When route resolution for a bucket fails, that is, when the bucket is not in the
  cache, the session is created and the region lookup answers with an error,
  \<open>getServiceForBucket\<close> returns this error and the downloader as it was, with no entry
  for the bucket, so that a later call for the bucket (one whose session can be created)
  looks the region up again. Conversely, an error that \<open>getServiceForBucket\<close> returns is
  the error of the region lookup, and the downloader is as before. After any sequence of
  calls on a new downloader, every entry of the cache is a client made with a region that
  the lookup of one of these calls returned for the entry's bucket.
\<close>

theorem failed_resolution_leaves_cache:
  "(serviceCache d bucket = None \<and> NewSession be = None
      \<and> GetBucketRegionWithClient be (s3_New defaultRegion) bucket = Inl err \<longrightarrow>
      getServiceForBucket be d bucket =
        (Err err, d,
         [EvLock, EvNewSession, EvGetBucketRegion (s3_New defaultRegion) bucket, EvUnlock])
      \<and> serviceCache (fst (snd (getServiceForBucket be d bucket))) bucket = None
      \<and> (\<forall>be'::s3_backend. NewSession be' = None \<longrightarrow>
            EvGetBucketRegion (s3_New defaultRegion) bucket
              \<in> set (snd (snd (getServiceForBucket be'
                                  (fst (snd (getServiceForBucket be d bucket))) bucket)))))
   \<and> (getServiceForBucket be d bucket = (Err err, d', tr) \<longrightarrow>
      d' = d \<and> serviceCache d' bucket = None
      \<and> GetBucketRegionWithClient be (s3_New defaultRegion) bucket = Inl err
      \<and> (\<forall>be'::s3_backend. NewSession be' = None \<longrightarrow>
            EvGetBucketRegion (s3_New defaultRegion) bucket
              \<in> set (snd (snd (getServiceForBucket be' d' bucket)))))
   \<and> (\<forall>b svc. serviceCache (resolve_all calls NewS3Downloader) b = Some svc \<longrightarrow>
        (\<exists>(be'::s3_backend) region. (be', b) \<in> set calls
           \<and> GetBucketRegionWithClient be' (s3_New defaultRegion) b = Inr region
           \<and> svc = s3_New region))"
proof (intro conjI impI allI)
  assume f: "serviceCache d bucket = None \<and> NewSession be = None
      \<and> GetBucketRegionWithClient be (s3_New defaultRegion) bucket = Inl err"
  then show g: "getServiceForBucket be d bucket =
        (Err err, d,
         [EvLock, EvNewSession, EvGetBucketRegion (s3_New defaultRegion) bucket, EvUnlock])"
    by (simp add: route_failure_returned)
  from f show n: "serviceCache (fst (snd (getServiceForBucket be d bucket))) bucket = None"
    by (simp add: g)
  fix be' :: s3_backend assume "NewSession be' = None"
  with n show "EvGetBucketRegion (s3_New defaultRegion) bucket
      \<in> set (snd (snd (getServiceForBucket be'
                          (fst (snd (getServiceForBucket be d bucket))) bucket)))"
    by (rule retry_after_miss)
next
  assume a: "getServiceForBucket be d bucket = (Err err, d', tr)"
  show "d' = d" using a by (rule route_failure)
  then show "serviceCache d' bucket = None" using route_failure(2) [OF a] by simp
  show "GetBucketRegionWithClient be (s3_New defaultRegion) bucket = Inl err"
    using a by (rule route_failure)
  fix be' :: s3_backend assume "NewSession be' = None"
  with \<open>serviceCache d' bucket = None\<close>
  show "EvGetBucketRegion (s3_New defaultRegion) bucket
          \<in> set (snd (snd (getServiceForBucket be' d' bucket)))"
    by (simp add: retry_after_miss)
next
  fix b svc
  assume "serviceCache (resolve_all calls NewS3Downloader) b = Some svc"
  moreover have "resolved_entries ([] @ calls) (resolve_all calls NewS3Downloader)"
    using resolved_entries_fresh by (rule resolved_entries_all)
  ultimately show "\<exists>(be'::s3_backend) region. (be', b) \<in> set calls
           \<and> GetBucketRegionWithClient be' (s3_New defaultRegion) b = Inr region
           \<and> svc = s3_New region"
    by (simp add: resolved_entries_def)
qed

theorem failed_resolution_leaves_cache_witness:
  "serviceCache NewS3Downloader ''missing'' = None
   \<and> NewSession missing_bucket_backend = None
   \<and> GetBucketRegionWithClient missing_bucket_backend (s3_New defaultRegion) ''missing'' =
       Inl (AwsError ErrCodeNoSuchBucket ''The specified bucket does not exist'')
   \<and> getServiceForBucket missing_bucket_backend NewS3Downloader ''missing'' =
     (Err (AwsError ErrCodeNoSuchBucket ''The specified bucket does not exist''), NewS3Downloader,
      [EvLock, EvNewSession, EvGetBucketRegion (s3_New defaultRegion) ''missing'', EvUnlock])
   \<and> NewSession example_backend = None
   \<and> EvGetBucketRegion (s3_New defaultRegion) ''missing''
        \<in> set (snd (snd (getServiceForBucket example_backend NewS3Downloader ''missing'')))
   \<and> serviceCache (resolve_all [(missing_bucket_backend, ''missing''), (example_backend, ''archives'')]
                      NewS3Downloader) ''archives'' = Some (s3_New ''eu-west-1'')
   \<and> (example_backend, ''archives'')
        \<in> set [(missing_bucket_backend, ''missing''), (example_backend, ''archives'')]
   \<and> GetBucketRegionWithClient example_backend (s3_New defaultRegion) ''archives'' = Inr ''eu-west-1''"
proof -
  have m: "serviceCache NewS3Downloader ''missing'' = None"
    by (simp add: NewS3Downloader_def)
  have n: "NewSession missing_bucket_backend = None"
    by (simp add: missing_bucket_backend_def)
  have l: "GetBucketRegionWithClient missing_bucket_backend (s3_New defaultRegion) ''missing'' =
       Inl (AwsError ErrCodeNoSuchBucket ''The specified bucket does not exist'')"
    by (simp add: missing_bucket_backend_def)
  note inst = failed_resolution_leaves_cache [of NewS3Downloader "''missing''" missing_bucket_backend
      "AwsError ErrCodeNoSuchBucket ''The specified bucket does not exist''" NewS3Downloader
      "[EvLock, EvNewSession, EvGetBucketRegion (s3_New defaultRegion) ''missing'', EvUnlock]"
      "[(missing_bucket_backend, ''missing''), (example_backend, ''archives'')]"]
  from inst m n l
  have g: "getServiceForBucket missing_bucket_backend NewS3Downloader ''missing'' =
     (Err (AwsError ErrCodeNoSuchBucket ''The specified bucket does not exist''), NewS3Downloader,
      [EvLock, EvNewSession, EvGetBucketRegion (s3_New defaultRegion) ''missing'', EvUnlock])"
    by blast
  have s: "NewSession example_backend = None"
    by (simp add: example_backend_def)
  from inst g s
  have e: "EvGetBucketRegion (s3_New defaultRegion) ''missing''
        \<in> set (snd (snd (getServiceForBucket example_backend NewS3Downloader ''missing'')))"
    by blast
  have c: "serviceCache (resolve_all [(missing_bucket_backend, ''missing''), (example_backend, ''archives'')]
                      NewS3Downloader) ''archives'' = Some (s3_New ''eu-west-1'')"
    by (simp add: getServiceForBucket_def missing_bucket_backend_def example_backend_def
        NewS3Downloader_def Let_def)
  have r: "GetBucketRegionWithClient example_backend (s3_New defaultRegion) ''archives'' = Inr ''eu-west-1''"
    by (simp add: example_backend_def)
  from m n l g s e c r show ?thesis by simp
qed

section \<open>The lock around route resolution\<close>















section \<open>Missing objects and containers\<close>

lemma Download_object_error:
  assumes "parseUri be uri = Inr parsed"
    and "getServiceForBucket be d (Bucket parsed) = (Ok svc, d', tr)"
    and "GetObjectWithContext be svc (Bucket parsed) (Path parsed) (buildRange offsetStart offsetEnd)
           = Inl err"
  shows "fst (Download be d uri offsetStart offsetEnd) =
           (if s3IsNotFoundErr (Some err) then Err ErrDoesNotExist else Err err)"
  using assms by (simp add: Download_def Let_def)

lemma SizeOf_object_error:
  assumes "parseUri be uri = Inr parsed"
    and "getServiceForBucket be d (Bucket parsed) = (Ok svc, d', tr)"
    and "HeadObjectWithContext be svc (Bucket parsed) (Path parsed) = Inl err"
  shows "fst (SizeOf be d uri) =
           (if s3IsNotFoundErr (Some err) then Err ErrDoesNotExist else Err err)"
  using assms by (simp add: SizeOf_def Let_def)

text \<open>
  An error of route resolution comes back as it is, whatever its code, from both
  operations; so does an error of parsing the locator.
\<close>

lemma route_error_is_raw:
  assumes "parseUri be uri = Inr parsed"
    and "getServiceForBucket be d (Bucket parsed) = (Err err, d', tr)"
  shows "fst (Download be d uri offsetStart offsetEnd) = Err err" and "fst (SizeOf be d uri) = Err err"
  using assms by (simp_all add: Download_def SizeOf_def)

lemma parse_error_is_raw:
  assumes "parseUri be uri = Inl err"
  shows "fst (Download be d uri offsetStart offsetEnd) = Err err" and "fst (SizeOf be d uri) = Err err"
  using assms by (simp_all add: Download_def SizeOf_def)

text \<open>
  C2, at a locator whose bucket does not exist. On a new downloader the first request for
  the bucket is the region lookup; the backend answers it with the code \<open>NoSuchBucket\<close>,
  which \<open>s3IsNotFoundErr\<close> recognises, and both \<open>Download\<close> and \<open>SizeOf\<close> return
  this backend error itself, not \<open>ErrDoesNotExist\<close>.
\<close>

theorem missing_bucket_error_is_raw:
  "s3IsNotFoundErr (Some (AwsError ErrCodeNoSuchBucket ''The specified bucket does not exist''))
   \<and> fst (Download missing_bucket_backend NewS3Downloader ''s3://missing/big.zip'' 0 0) =
       Err (AwsError ErrCodeNoSuchBucket ''The specified bucket does not exist'')
   \<and> fst (SizeOf missing_bucket_backend NewS3Downloader ''s3://missing/big.zip'') =
       Err (AwsError ErrCodeNoSuchBucket ''The specified bucket does not exist'')
   \<and> fst (Download missing_bucket_backend NewS3Downloader ''s3://missing/big.zip'' 0 0)
       \<noteq> Err ErrDoesNotExist
   \<and> fst (SizeOf missing_bucket_backend NewS3Downloader ''s3://missing/big.zip'')
       \<noteq> Err ErrDoesNotExist"
  by (simp add: Download_def SizeOf_def parseUri_def getServiceForBucket_def Let_def
      missing_bucket_backend_def NewS3Downloader_def)

section \<open>The WebDAV adapter\<close>

text \<open>
  C3, as the code has it. For every path and every flag value, \<open>OpenFile\<close> makes one
  call on the Tree, \<open>Stat\<close> of the path, and none of \<open>Open\<close>; flags and permissions do
  not change what it does; it leaves the adapter as it was. An error of \<open>Stat\<close> is
  returned as it is. Otherwise the handle returned holds the Tree and the file
  information that \<open>Stat\<close> gave for the path, so the size and the modification time it
  carries are those of the path's entry.
\<close>

theorem OpenFile_stats_the_path:
  "snd (snd (OpenFile fs name flag perm)) = [CallStat name]
   \<and> fst (snd (OpenFile fs name flag perm)) = fs
   \<and> OpenFile fs name flag perm = OpenFile fs name flag' perm'
   \<and> (tree_Stat (tree fs) name = Inl err \<longrightarrow> fst (OpenFile fs name flag perm) = Inl err)
   \<and> (tree_Stat (tree fs) name = Inr f \<longrightarrow>
        (\<exists>h. fst (OpenFile fs name flag perm) = Inr h \<and> file_tree h = tree fs \<and> fi h = f
             \<and> fi_size (fi h) = fi_size f \<and> fi_modTime (fi h) = fi_modTime f))"
  by (simp add: OpenFile_def split: sum.splits)

theorem OpenFile_stats_the_path_witness:
  "tree_Stat (tree example_fs) ''/a/b.txt'' = Inr example_entry
   \<and> tree_Stat (tree example_fs) ''/nothing'' = Inl os_ErrNotExist
   \<and> fst (OpenFile example_fs ''/nothing'' 0 0) = Inl os_ErrNotExist
   \<and> fi_size (fi (projr (fst (OpenFile example_fs ''/a/b.txt'' 0 0)))) = 12
   \<and> snd (snd (OpenFile example_fs ''/a/b.txt'' 1 0)) = [CallStat ''/a/b.txt'']"
proof -
  have a: "tree_Stat (tree example_fs) ''/a/b.txt'' = Inr example_entry"
    by (simp add: example_fs_def NewDavFS_def example_tree_def)
  have b: "tree_Stat (tree example_fs) ''/nothing'' = Inl os_ErrNotExist"
    by (simp add: example_fs_def NewDavFS_def example_tree_def)
  have s: "fi_size example_entry = 12"
    by (simp add: example_entry_def)
  from OpenFile_stats_the_path [of example_fs "''/a/b.txt''" 0 0 1 0 os_ErrNotExist example_entry]
    OpenFile_stats_the_path [of example_fs "''/nothing''" 0 0 1 0 os_ErrNotExist example_entry] a b s
  show ?thesis by auto
qed

text \<open>
  C3, as stated, fails: opening \<open>/a/b.txt\<close> for reading (\<open>O_RDONLY\<close> is 0) on a Tree
  whose \<open>Open\<close> always fails gives a handle, after the one call \<open>Stat\<close>; \<open>Open\<close> is not
  called.
\<close>

theorem OpenFile_does_not_call_Open:
  "snd (snd (OpenFile example_fs ''/a/b.txt'' 0 0)) = [CallStat ''/a/b.txt'']
   \<and> CallOpen ''/a/b.txt'' \<notin> set (snd (snd (OpenFile example_fs ''/a/b.txt'' 0 0)))
   \<and> tree_Open (tree example_fs) ''/a/b.txt'' = Inl os_ErrNotExist
   \<and> fst (OpenFile example_fs ''/a/b.txt'' 0 0) = Inr \<lparr>file_tree = example_tree, fi = example_entry\<rparr>"
  by (simp add: OpenFile_def example_fs_def NewDavFS_def example_tree_def)

text \<open>
  C4, as the code has it. For every name and every permission, \<open>Mkdir\<close>, \<open>RemoveAll\<close> and
  \<open>Rename\<close> fail with \<open>os.ErrInvalid\<close> ("invalid argument"), make no call on the Tree and
  leave the adapter as it was.
\<close>

theorem mutations_always_rejected:
  "Mkdir fs name perm = (Some os_ErrInvalid, fs, [])
   \<and> RemoveAll fs name = (Some os_ErrInvalid, fs, [])
   \<and> Rename fs oldName newName = (Some os_ErrInvalid, fs, [])"
  by (simp add: Mkdir_def RemoveAll_def Rename_def)

text \<open>
  C4, as stated, fails: the error of the three operations is \<open>os.ErrInvalid\<close>, which is
  not an error that says that the operation is not permitted.
\<close>

theorem mutations_error_is_not_permission:
  "fst (Mkdir example_fs ''/new'' 493) = Some os_ErrInvalid
   \<and> fst (RemoveAll example_fs ''/a/b.txt'') = Some os_ErrInvalid
   \<and> fst (Rename example_fs ''/a/b.txt'' ''/a/c.txt'') = Some os_ErrInvalid
   \<and> \<not> IsPermission os_ErrInvalid"
  by (simp add: Mkdir_def RemoveAll_def Rename_def)

section \<open>Runs of the mount server\<close>

lemma sends_append: "sends (xs @ ys) = sends xs @ sends ys"
  by (induction xs rule: sends.induct) simp_all

lemma written_append: "written (xs @ ys) = written xs @ written ys"
  by (induction xs rule: written.induct) simp_all

lemma spawned_append: "spawned (xs @ ys) = spawned xs @ spawned ys"
  by (induction xs rule: spawned.induct) simp_all

lemma stopped_append: "ys \<noteq> [] \<Longrightarrow> stopped (xs @ ys) = stopped ys"
  by (induction xs rule: stopped.induct) (auto simp: neq_Nil_conv)

lemma stopped_Cons: "ys \<noteq> [] \<Longrightarrow> stopped (x # ys) = stopped ys"
  using stopped_append [of ys "[x]"] by simp

lemma after_failed_build_append:
  "after_failed_build (xs @ ys) =
     (case after_failed_build xs of
        None \<Rightarrow> after_failed_build ys
      | Some (err, rest) \<Rightarrow> Some (err, rest @ ys))"
  by (induction xs rule: after_failed_build.induct) simp_all

lemma sendCallback_events:
  "snd (sendCallback env n toAddr className msg) =
     [EvSendCallback toAddr className msg, EvDial n toAddr (net_Dial env n toAddr)] @
     (if net_Dial env n toAddr = None then
        EvWrite n (status_text env className @ ''='' @ msg @ newline)
          (conn_Write env n (status_text env className @ ''='' @ msg @ newline)) #
        (if conn_Write env n (status_text env className @ ''='' @ msg @ newline) = None
         then [EvClose n (conn_Close env n)] else [])
      else [])"
  by (simp add: sendCallback_def Let_def split: option.splits)

lemma sends_sendCallback [simp]:
  "sends (snd (sendCallback env n toAddr className msg)) = [(toAddr, className, msg)]"
  by (simp add: sendCallback_def Let_def split: option.splits)

lemma spawned_sendCallback [simp]: "spawned (snd (sendCallback env n toAddr className msg)) = []"
  by (simp add: sendCallback_def Let_def split: option.splits)

lemma written_sendCallback:
  "written (snd (sendCallback env n toAddr className msg)) =
     (if net_Dial env n toAddr = None
         \<and> conn_Write env n (status_text env className @ ''='' @ msg @ newline) = None
      then [status_text env className @ ''='' @ msg @ newline] else [])"
  by (simp add: sendCallback_def Let_def split: option.splits)

lemma dieWithCallback_alt:
  "dieWithCallback env n toAddr errMessage =
     (if toAddr \<noteq> [] then
        snd (sendCallback env n toAddr mountServerStatusError errMessage) @
        [EvExit (case fst (sendCallback env n toAddr mountServerStatusError errMessage) of
                   None \<Rightarrow> errMessage
                 | Some err \<Rightarrow> errMessage @ '' (could not notify callback address '' @ toAddr
                                 @ '': '' @ err @ '')'')]
      else [EvExit errMessage])"
  by (simp add: dieWithCallback_def die_def split: prod.splits option.splits)

lemma sends_dieWithCallback [simp]:
  "sends (dieWithCallback env n toAddr errMessage) =
     (if toAddr \<noteq> [] then [(toAddr, mountServerStatusError, errMessage)] else [])"
  by (simp add: dieWithCallback_alt sends_append)

lemma spawned_dieWithCallback [simp]: "spawned (dieWithCallback env n toAddr errMessage) = []"
  by (simp add: dieWithCallback_alt spawned_append)

lemma written_dieWithCallback:
  "written (dieWithCallback env n toAddr errMessage) =
     (if toAddr \<noteq> [] then written (snd (sendCallback env n toAddr mountServerStatusError errMessage))
      else [])"
  by (simp add: dieWithCallback_alt written_append)

lemma stopped_dieWithCallback [simp]: "stopped (dieWithCallback env n toAddr errMessage)"
  by (simp add: dieWithCallback_alt stopped_append)

lemma dieWithCallback_not_Nil [simp]: "dieWithCallback env n toAddr errMessage \<noteq> []"
  by (simp add: dieWithCallback_alt)

lemma serving_sendCallback [simp]:
  "ev \<in> set (snd (sendCallback env n toAddr className msg)) \<Longrightarrow> \<not> serving_event ev"
  by (auto simp: sendCallback_events split: if_splits)

lemma serving_dieWithCallback [simp]:
  "ev \<in> set (dieWithCallback env n toAddr errMessage) \<Longrightarrow> \<not> serving_event ev"
  by (auto simp: dieWithCallback_alt split: if_splits)

lemma after_failed_build_sendCallback [simp]:
  "after_failed_build (snd (sendCallback env n toAddr className msg)) = None"
  by (simp add: sendCallback_events)

lemma after_failed_build_dieWithCallback [simp]:
  "after_failed_build (dieWithCallback env n toAddr errMessage) = None"
  by (simp add: dieWithCallback_alt after_failed_build_append)

lemma run_report_alt:
  "run_report env fl auto cacheDir boundAddr =
     (if flag_callback_addr fl \<noteq> [] then
        snd (sendCallback env 0 (flag_callback_addr fl) mountServerStatusSuccess boundAddr) @
        (case fst (sendCallback env 0 (flag_callback_addr fl) mountServerStatusSuccess boundAddr) of
           Some err \<Rightarrow> [EvExit (''could not send listen address back to caller: '' @ err @ newline)]
         | None \<Rightarrow> run_wait env fl auto cacheDir)
      else run_wait env fl auto cacheDir)"
  by (simp add: run_report_def die_def split: prod.splits option.splits)

lemma Run_alt:
  "Run env fl remoteFile =
     snd (serverLogging env (flag_log fl)) @
     (case fst (serverLogging env (flag_log fl)) of
        Inl err \<Rightarrow>
          dieWithCallback env 0 (flag_callback_addr fl)
            (''could not open log file '' @ flag_log fl @ '': '' @ err @ newline)
      | Inr lg \<Rightarrow> EvLogInfo ''starting mount server'' # run_cache env fl remoteFile)"
  by (simp add: Run_def split: prod.splits sum.splits)

lemma exit_message_append:
  "exit_message (xs @ ys) = (case exit_message xs of None \<Rightarrow> exit_message ys | Some m \<Rightarrow> Some m)"
  by (induction xs rule: exit_message.induct) simp_all

lemma after_failed_build_deferred [simp]:
  "after_failed_build (run_deferred env fl auto cacheDir) = None"
  by (simp add: run_deferred_def split: option.splits)

lemma after_failed_build_wait [simp]:
  "after_failed_build (run_wait env fl auto cacheDir) = None"
  by (simp add: run_wait_def)

lemma after_failed_build_report [simp]:
  "after_failed_build (run_report env fl auto cacheDir boundAddr) = None"
  by (simp add: run_report_alt after_failed_build_append split: option.splits)

lemma after_failed_build_serve [simp]:
  "after_failed_build (run_serve env fl auto cacheDir boundAddr) = None"
  by (simp add: run_serve_def)

lemma after_failed_build_Run:
  "after_failed_build (Run env fl remoteFile) = Some (err, rest) \<Longrightarrow>
     rest = dieWithCallback env 0 (flag_callback_addr fl)
              (''could not create filesystem: '' @ err @ newline)"
  by (auto simp: Run_alt serverLogging_def run_cache_def run_listen_def run_build_def Let_def
      after_failed_build_append split: sum.splits option.splits if_splits)

lemma run_cache_reaches:
  assumes "isDir env (chosen_cache_dir env fl) = Inr True
        \<or> isDir env (chosen_cache_dir env fl) = Inr False
           \<and> os_MkdirAll env (chosen_cache_dir env fl) = None"
  shows "run_cache env fl remoteFile =
     EvIsDir (chosen_cache_dir env fl) None #
     (if isDir env (chosen_cache_dir env fl) = Inr True then []
      else [EvMkdirAll (chosen_cache_dir env fl) None]) @
     run_listen env fl remoteFile (cache_dir_generated env fl) (chosen_cache_dir env fl)"
  using assms
  by (auto simp: run_cache_def chosen_cache_dir_def cache_dir_generated_def Let_def)

lemma Run_reaches_listen:
  assumes "reaches_listen env fl"
  shows "Run env fl remoteFile =
     startup_events env fl @
     run_listen env fl remoteFile (cache_dir_generated env fl) (chosen_cache_dir env fl)"
proof -
  from assms have c: "isDir env (chosen_cache_dir env fl) = Inr True
        \<or> isDir env (chosen_cache_dir env fl) = Inr False
           \<and> os_MkdirAll env (chosen_cache_dir env fl) = None"
    by (simp add: reaches_listen_def)
  from assms have l: "flag_log fl = [] \<or> os_OpenFile env (flag_log fl) = None"
    by (simp add: reaches_listen_def)
  from l show ?thesis
    by (auto simp: Run_alt serverLogging_def run_cache_reaches [OF c] startup_events_def)
qed


lemma preceded_seen: "preceded P Q True evs"
  by (induction evs) simp_all

lemma preceded_none: "\<forall>ev \<in> set evs. \<not> Q ev \<Longrightarrow> preceded P Q seen evs"
  by (induction evs arbitrary: seen) simp_all

lemma preceded_append:
  "preceded P Q seen (xs @ ys) \<longleftrightarrow>
     preceded P Q seen xs \<and> preceded P Q (seen \<or> (\<exists>ev \<in> set xs. P ev)) ys"
  by (induction xs arbitrary: seen) (auto simp: disj_assoc)

lemma preceded_split:
  "preceded P Q seen (pre @ ev # post) \<Longrightarrow> Q ev \<Longrightarrow> seen \<or> (\<exists>e \<in> set pre. P e)"
  by (simp add: preceded_append)

lemma events_sendCallback:
  "ev \<in> set (snd (sendCallback env n toAddr className msg)) \<Longrightarrow>
     \<not> is_build ev \<and> \<not> is_spawn ev \<and> \<not> is_bind ev"
  by (auto simp: sendCallback_events split: if_splits)

lemma events_dieWithCallback:
  "ev \<in> set (dieWithCallback env n toAddr errMessage) \<Longrightarrow>
     \<not> is_build ev \<and> \<not> is_spawn ev \<and> \<not> is_bind ev"
  by (auto simp: dieWithCallback_alt sendCallback_events split: if_splits)

lemma preceded_die_build [simp]:
  "preceded P is_build seen (dieWithCallback env n toAddr errMessage)"
  by (rule preceded_none) (simp add: events_dieWithCallback)

lemma preceded_die_spawn [simp]:
  "preceded P is_spawn seen (dieWithCallback env n toAddr errMessage)"
  by (rule preceded_none) (simp add: events_dieWithCallback)

lemma bind_precedes_build_listen:
  "preceded is_bind is_build False (run_listen env fl remoteFile auto cacheDir)"
  by (simp add: run_listen_def preceded_seen split: sum.splits)

lemma bind_precedes_build_cache:
  "preceded is_bind is_build False (run_cache env fl remoteFile)"
  by (simp add: run_cache_def Let_def bind_precedes_build_listen split: sum.splits option.splits)

lemma bind_precedes_build: "preceded is_bind is_build False (Run env fl remoteFile)"
  by (simp add: Run_alt serverLogging_def bind_precedes_build_cache split: sum.splits option.splits)

lemma build_precedes_spawn_build:
  "preceded is_built is_spawn False (run_build env fl remoteFile auto cacheDir boundAddr)"
  by (simp add: run_build_def preceded_seen split: sum.splits)

lemma build_precedes_spawn_listen:
  "preceded is_built is_spawn False (run_listen env fl remoteFile auto cacheDir)"
  by (simp add: run_listen_def build_precedes_spawn_build split: sum.splits)

lemma build_precedes_spawn_cache:
  "preceded is_built is_spawn False (run_cache env fl remoteFile)"
  by (simp add: run_cache_def Let_def build_precedes_spawn_listen split: sum.splits option.splits)

lemma build_precedes_spawn: "preceded is_built is_spawn False (Run env fl remoteFile)"
  by (simp add: Run_alt serverLogging_def build_precedes_spawn_cache split: sum.splits option.splits)

lemma listens_append: "listens (xs @ ys) = listens xs @ listens ys"
  by (induction xs rule: listens.induct) simp_all

lemma listens_mem: "EvListen l res \<in> set evs \<longleftrightarrow> (l, res) \<in> set (listens evs)"
  by (induction evs rule: listens.induct) auto

lemma listens_sendCallback [simp]: "listens (snd (sendCallback env n toAddr className msg)) = []"
  by (simp add: sendCallback_events)

lemma listens_dieWithCallback [simp]: "listens (dieWithCallback env n toAddr errMessage) = []"
  by (simp add: dieWithCallback_alt listens_append)

lemma listens_build [simp]: "listens (run_build env fl remoteFile auto cacheDir boundAddr) = []"
  by (simp add: run_build_def run_serve_def run_report_alt run_wait_def run_deferred_def
      listens_append split: sum.splits option.splits)

lemma listens_Run:
  "(l, res) \<in> set (listens (Run env fl remoteFile)) \<Longrightarrow>
     l = flag_listen fl \<and> res = net_Listen env (flag_listen fl)"
  by (auto simp: Run_alt serverLogging_def run_cache_def run_listen_def Let_def listens_append
      split: sum.splits option.splits if_splits)


lemma Run_build_fails:
  assumes "reaches_listen env fl" and "net_Listen env (flag_listen fl) = Inr boundAddr"
    and "BuildZipTree env (chosen_cache_dir env fl) remoteFile boundAddr (flag_protocol fl)
           (flag_log fl) = Inl err"
  shows "Run env fl remoteFile =
     startup_events env fl @
     [EvListen (flag_listen fl) (Inr boundAddr),
      EvBuildZipTree (chosen_cache_dir env fl) remoteFile (Some err)] @
     dieWithCallback env 0 (flag_callback_addr fl)
       (''could not create filesystem: '' @ err @ newline)"
  using assms by (simp add: Run_reaches_listen run_listen_def run_build_def)

lemma failed_build_build:
  "after_failed_build (run_build env fl remoteFile auto cacheDir boundAddr) = Some (err, rest) \<Longrightarrow>
     spawned (run_build env fl remoteFile auto cacheDir boundAddr) = []
     \<and> sends (run_build env fl remoteFile auto cacheDir boundAddr) = sends rest
     \<and> stopped (run_build env fl remoteFile auto cacheDir boundAddr)"
  by (cases "BuildZipTree env cacheDir remoteFile boundAddr (flag_protocol fl) (flag_log fl)")
     (auto simp: run_build_def stopped_Cons)

lemma failed_build_listen:
  "after_failed_build (run_listen env fl remoteFile auto cacheDir) = Some (err, rest) \<Longrightarrow>
     spawned (run_listen env fl remoteFile auto cacheDir) = []
     \<and> sends (run_listen env fl remoteFile auto cacheDir) = sends rest
     \<and> stopped (run_listen env fl remoteFile auto cacheDir)"
proof (cases "net_Listen env (flag_listen fl)")
  case (Inl e)
  assume "after_failed_build (run_listen env fl remoteFile auto cacheDir) = Some (err, rest)"
  with Inl show ?thesis by (simp add: run_listen_def)
next
  case (Inr b)
  assume a: "after_failed_build (run_listen env fl remoteFile auto cacheDir) = Some (err, rest)"
  with Inr have "after_failed_build (run_build env fl remoteFile auto cacheDir b) = Some (err, rest)"
    by (simp add: run_listen_def)
  from failed_build_build [OF this] have
    "spawned (run_build env fl remoteFile auto cacheDir b) = []"
    "sends (run_build env fl remoteFile auto cacheDir b) = sends rest"
    "stopped (run_build env fl remoteFile auto cacheDir b)"
    "run_build env fl remoteFile auto cacheDir b \<noteq> []"
    by auto
  with Inr show ?thesis by (simp add: run_listen_def stopped_Cons)
qed

end
